theory Spec2Isabelle
  imports Complex_Main "HOL-Library.Monad_Syntax"
begin

section \<open>JavaScript strings\<close>

text \<open>
  A JavaScript string is a sequence of UTF-16 code units. The colour and style strings of
  the plugin are ASCII, so a string is modelled as a \<^typ>\<open>string\<close> whose characters are
  the code units below 256. The string methods the plugin calls are written out here.
\<close>

text \<open>White space and line terminators (what \<open>trim\<close>, \<open>\s\<close> and \<open>parseInt\<close> skip):
  tab, line feed, vertical tab, form feed, carriage return, space, no-break space.\<close>

definition isWhiteSpace :: "char \<Rightarrow> bool" where
  "isWhiteSpace c = (of_char c \<in> {9, 10, 11, 12, 13, 32, 160 :: nat})"

text \<open>\<open>\d\<close> of a JavaScript regular expression: the ten ASCII digits.\<close>

definition isDigit :: "char \<Rightarrow> bool" where
  "isDigit c = (48 \<le> (of_char c :: nat) \<and> (of_char c :: nat) \<le> 57)"

text \<open>\<open>str.startsWith(p)\<close>, \<open>str.endsWith(p)\<close>, \<open>str.includes(p)\<close>.\<close>

fun startsWith :: "string \<Rightarrow> string \<Rightarrow> bool" where
  "startsWith str [] = True"
| "startsWith [] (p # ps) = False"
| "startsWith (c # cs) (p # ps) = (c = p \<and> startsWith cs ps)"

definition endsWith :: "string \<Rightarrow> string \<Rightarrow> bool" where
  "endsWith str p = startsWith (rev str) (rev p)"

fun str_includes :: "string \<Rightarrow> string \<Rightarrow> bool" where
  "str_includes [] p = (p = [])"
| "str_includes (c # cs) p = (startsWith (c # cs) p \<or> str_includes cs p)"

text \<open>\<open>str.trim()\<close>.\<close>

definition trim :: "string \<Rightarrow> string" where
  "trim str = rev (dropWhile isWhiteSpace (rev (dropWhile isWhiteSpace str)))"

text \<open>\<open>str.substring(i, j)\<close> for \<open>i \<le> j\<close>, as the plugin calls it.\<close>

definition substring :: "string \<Rightarrow> nat \<Rightarrow> nat \<Rightarrow> string" where
  "substring str i j = take (j - i) (drop i str)"

text \<open>\<open>str.replace(/^#/, "")\<close>: one leading \<open>#\<close> is removed.\<close>

definition replaceLeadingHash :: "string \<Rightarrow> string" where
  "replaceLeadingHash str = (case str of c # cs \<Rightarrow> if c = CHR ''#'' then cs else str | [] \<Rightarrow> [])"

text \<open>\<open>str.padStart(2, "0")\<close>.\<close>

definition padStart2 :: "string \<Rightarrow> string" where
  "padStart2 str = replicate (2 - length str) CHR ''0'' @ str"

section \<open>JavaScript numbers\<close>

text \<open>
  A JavaScript number is an IEEE 754 double: \<open>NaN\<close>, the two infinities, or a finite
  value, which is a rational number. Every arithmetic operation computes the exact
  rational result and rounds it to the nearest double, ties to even
  (\<open>toDouble\<close>). The two zeros are identified: the plugin never divides by a negative
  zero and prints both as \<open>0\<close>.
\<close>

datatype number = NaN | PInf | NInf | Fin rat

definition pow2 :: "int \<Rightarrow> rat" where
  "pow2 e = (if 0 \<le> e then of_int (2 ^ nat e) else 1 / of_int (2 ^ nat (- e)))"

text \<open>The number of binary digits of a positive integer.\<close>

function bitLength :: "int \<Rightarrow> int" where
  "bitLength n = (if n \<le> 0 then 0 else 1 + bitLength (drop_bit 1 n))"
  by pat_completeness auto
termination
  by (relation "measure nat") (auto simp: drop_bit_eq_div)

text \<open>\<open>fracLog2 p q\<close> is \<open>\<lfloor>log\<^sub>2 (p / q)\<rfloor>\<close> for positive integers \<open>p\<close> and \<open>q\<close>: the difference
  of the bit lengths, or one less.\<close>

definition fracLog2 :: "int \<Rightarrow> int \<Rightarrow> int" where
  "fracLog2 p q =
     (let e = bitLength p - bitLength q
      in if (if 0 \<le> e then q * 2 ^ nat e \<le> p else q \<le> p * 2 ^ nat (- e)) then e else e - 1)"

text \<open>\<open>roundTiesToEven n d\<close> is the fraction \<open>n / d\<close> (\<open>0 \<le> n\<close>, \<open>0 < d\<close>) rounded to the
  nearest integer, a tie going to the even one.\<close>

definition roundTiesToEven :: "int \<Rightarrow> int \<Rightarrow> int" where
  "roundTiesToEven n d =
     (let f = n div d; r = n mod d
      in if 2 * r < d then f else if d < 2 * r then f + 1
         else if even f then f else f + 1)"

text \<open>Rounding to a double. The rational \<open>x\<close> is \<open>p / q\<close> in lowest terms. With \<open>e\<close> its
  binary exponent less 52, and at least \<open>-1074\<close> (the subnormal range), the double is
  \<open>m \<times> 2\<^sup>e\<close> where \<open>m\<close> is \<open>\<bar>x\<bar> / 2\<^sup>e\<close> rounded to an integer, so \<open>m \<le> 2\<^sup>5\<^sup>3\<close>. It overflows
  to an infinity when it reaches \<open>2\<^sup>1\<^sup>0\<^sup>2\<^sup>4\<close>, that is when \<open>971 < e\<close>, or \<open>e = 971\<close> and
  \<open>m = 2\<^sup>5\<^sup>3\<close>.\<close>

definition toDouble :: "rat \<Rightarrow> number" where
  "toDouble x =
     (let (p, q) = quotient_of x
      in if p = 0 then Fin 0
         else let e = max (fracLog2 \<bar>p\<bar> q - 52) (- 1074);
                  m = (if 0 \<le> e then roundTiesToEven \<bar>p\<bar> (q * 2 ^ nat e)
                       else roundTiesToEven (\<bar>p\<bar> * 2 ^ nat (- e)) q)
              in if 971 < e \<or> (e = 971 \<and> m = 2 ^ 53) then (if 0 < p then PInf else NInf)
                 else Fin (of_int (sgn p * m) * pow2 e))"

text \<open>The arithmetic operators \<open>+\<close>, \<open>-\<close>, \<open>*\<close>, \<open>/\<close> and the comparisons \<open><\<close>,
  \<open>\<le>\<close> on numbers. A comparison with \<open>NaN\<close> is false.\<close>

instantiation number :: "{plus, uminus, times, inverse, ord}"
begin

fun uminus_number :: "number \<Rightarrow> number" where
  "uminus_number NaN = NaN"
| "uminus_number PInf = NInf"
| "uminus_number NInf = PInf"
| "uminus_number (Fin a) = Fin (- a)"

fun plus_number :: "number \<Rightarrow> number \<Rightarrow> number" where
  "plus_number NaN y = NaN"
| "plus_number x NaN = NaN"
| "plus_number PInf NInf = NaN"
| "plus_number NInf PInf = NaN"
| "plus_number PInf y = PInf"
| "plus_number NInf y = NInf"
| "plus_number (Fin a) PInf = PInf"
| "plus_number (Fin a) NInf = NInf"
| "plus_number (Fin a) (Fin b) = toDouble (a + b)"

fun times_number :: "number \<Rightarrow> number \<Rightarrow> number" where
  "times_number NaN y = NaN"
| "times_number x NaN = NaN"
| "times_number PInf PInf = PInf"
| "times_number PInf NInf = NInf"
| "times_number NInf PInf = NInf"
| "times_number NInf NInf = PInf"
| "times_number PInf (Fin b) = (if b = 0 then NaN else if 0 < b then PInf else NInf)"
| "times_number NInf (Fin b) = (if b = 0 then NaN else if 0 < b then NInf else PInf)"
| "times_number (Fin a) PInf = (if a = 0 then NaN else if 0 < a then PInf else NInf)"
| "times_number (Fin a) NInf = (if a = 0 then NaN else if 0 < a then NInf else PInf)"
| "times_number (Fin a) (Fin b) = toDouble (a * b)"

fun divide_number :: "number \<Rightarrow> number \<Rightarrow> number" where
  "divide_number NaN y = NaN"
| "divide_number x NaN = NaN"
| "divide_number PInf PInf = NaN"
| "divide_number PInf NInf = NaN"
| "divide_number NInf PInf = NaN"
| "divide_number NInf NInf = NaN"
| "divide_number PInf (Fin b) = (if 0 \<le> b then PInf else NInf)"
| "divide_number NInf (Fin b) = (if 0 \<le> b then NInf else PInf)"
| "divide_number (Fin a) PInf = Fin 0"
| "divide_number (Fin a) NInf = Fin 0"
| "divide_number (Fin a) (Fin b) =
     (if b = 0 then (if a = 0 then NaN else if 0 < a then PInf else NInf)
      else toDouble (a / b))"

fun inverse_number :: "number \<Rightarrow> number" where
  "inverse_number NaN = NaN"
| "inverse_number PInf = Fin 0"
| "inverse_number NInf = Fin 0"
| "inverse_number (Fin b) = (if b = 0 then PInf else toDouble (1 / b))"

fun less_number :: "number \<Rightarrow> number \<Rightarrow> bool" where
  "less_number NaN y = False"
| "less_number x NaN = False"
| "less_number x NInf = False"
| "less_number PInf y = False"
| "less_number NInf y = True"
| "less_number (Fin a) PInf = True"
| "less_number (Fin a) (Fin b) = (a < b)"

fun less_eq_number :: "number \<Rightarrow> number \<Rightarrow> bool" where
  "less_eq_number NaN y = False"
| "less_eq_number x NaN = False"
| "less_eq_number NInf y = True"
| "less_eq_number x PInf = True"
| "less_eq_number x NInf = False"
| "less_eq_number PInf y = False"
| "less_eq_number (Fin a) (Fin b) = (a \<le> b)"

instance ..

end

instantiation number :: minus
begin

definition minus_number :: "number \<Rightarrow> number \<Rightarrow> number" where
  "minus_number x y = x + (- y)"

instance ..

end

text \<open>Strict equality \<open>===\<close> on numbers (\<open>!==\<close> is its negation): \<open>NaN\<close> equals nothing,
  not even itself.\<close>

fun strictEq :: "number \<Rightarrow> number \<Rightarrow> bool" where
  "strictEq NaN y = False"
| "strictEq x NaN = False"
| "strictEq x y = (x = y)"

text \<open>\<open>a % b\<close>: the remainder has the sign of the dividend and is exact.\<close>

fun jsMod :: "number \<Rightarrow> number \<Rightarrow> number" where
  "jsMod (Fin a) (Fin b) =
     (if b = 0 then NaN
      else let q = a / b; t = (if 0 \<le> q then \<lfloor>q\<rfloor> else \<lceil>q\<rceil>) in Fin (a - b * of_int t))"
| "jsMod (Fin a) PInf = Fin a"
| "jsMod (Fin a) NInf = Fin a"
| "jsMod x y = NaN"

text \<open>\<open>Math.max\<close> and \<open>Math.min\<close>: \<open>NaN\<close> when an argument is \<open>NaN\<close>.\<close>

definition Math_max2 :: "number \<Rightarrow> number \<Rightarrow> number" where
  "Math_max2 x y = (if x = NaN \<or> y = NaN then NaN else if x < y then y else x)"

definition Math_min2 :: "number \<Rightarrow> number \<Rightarrow> number" where
  "Math_min2 x y = (if x = NaN \<or> y = NaN then NaN else if y < x then y else x)"

definition Math_max :: "number \<Rightarrow> number \<Rightarrow> number \<Rightarrow> number" where
  "Math_max x y z = Math_max2 (Math_max2 x y) z"

definition Math_min :: "number \<Rightarrow> number \<Rightarrow> number \<Rightarrow> number" where
  "Math_min x y z = Math_min2 (Math_min2 x y) z"

text \<open>\<open>Math.round\<close>: the nearest integer, a tie going up.\<close>

fun Math_round :: "number \<Rightarrow> number" where
  "Math_round (Fin a) = Fin (of_int \<lfloor>a + 1 / 2\<rfloor>)"
| "Math_round x = x"

subsection \<open>Strings to numbers\<close>

definition digitValue :: "char \<Rightarrow> int" where
  "digitValue c = of_char c - 48"

text \<open>\<open>Number(str)\<close> for the strings the plugin converts, the elements of a match array:
  a captured run of decimal digits gives its decimal value, rounded to a double; the
  whole match, which starts with \<open>hsl(\<close> or \<open>rgb(\<close>, is not a numeric literal and gives
  \<open>NaN\<close>. The other numeric literals (signs, fractions, exponents, surrounding white
  space) do not occur and are not modelled.\<close>

definition decimalValue :: "string \<Rightarrow> int" where
  "decimalValue ds = foldl (\<lambda>a c. 10 * a + digitValue c) 0 ds"

definition Number :: "string \<Rightarrow> number" where
  "Number str = (if str = [] then Fin 0
                 else if list_all isDigit str then toDouble (of_int (decimalValue str))
                 else NaN)"

definition hexDigitValue :: "char \<Rightarrow> int option" where
  "hexDigitValue c =
     (let n = (of_char c :: int)
      in if 48 \<le> n \<and> n \<le> 57 then Some (n - 48)
         else if 97 \<le> n \<and> n \<le> 102 then Some (n - 87)
         else if 65 \<le> n \<and> n \<le> 70 then Some (n - 55)
         else None)"

text \<open>\<open>parseInt(str, 16)\<close>: leading white space is skipped, then an optional sign and an
  optional \<open>0x\<close>; the longest run of hexadecimal digits that follows is the value, and
  \<open>NaN\<close> is returned when there is none. What comes after the digits is ignored.\<close>

definition parseInt16 :: "string \<Rightarrow> number" where
  "parseInt16 str =
     (let s1 = dropWhile isWhiteSpace str;
          neg = startsWith s1 ''-'';
          s2 = (if startsWith s1 ''-'' \<or> startsWith s1 ''+'' then drop 1 s1 else s1);
          s3 = (if startsWith s2 ''0x'' \<or> startsWith s2 ''0X'' then drop 2 s2 else s2);
          ds = takeWhile (\<lambda>c. hexDigitValue c \<noteq> None) s3;
          v = foldl (\<lambda>a c. 16 * a + the (hexDigitValue c)) 0 ds
      in if ds = [] then NaN
         else if neg then - toDouble (of_int v) else toDouble (of_int v))"

subsection \<open>Numbers to strings\<close>

function digitsOf :: "int \<Rightarrow> string" where
  "digitsOf n = (if n < 10 then [char_of (48 + n)]
                 else digitsOf (n div 10) @ [char_of (48 + n mod 10)])"
  by pat_completeness auto
termination
  by (relation "measure nat") auto

definition pow10 :: "int \<Rightarrow> rat" where
  "pow10 e = (if 0 \<le> e then of_int (10 ^ nat e) else 1 / of_int (10 ^ nat (- e)))"

text \<open>\<open>ilog10 x\<close> is \<open>\<lfloor>log\<^sub>1\<^sub>0 x\<rfloor>\<close> for a positive double \<open>x\<close>: an estimate from the binary
  exponent, corrected by one where needed.\<close>

definition ilog10 :: "rat \<Rightarrow> int" where
  "ilog10 x = (let (p, q) = quotient_of x; g = (fracLog2 p q * 30103) div 100000
               in if pow10 (g + 1) \<le> x then g + 1 else if x < pow10 g then g - 1 else g)"

text \<open>
  \<open>Number::toString\<close> of the language standard, for a positive double \<open>x\<close>: the shortest
  decimal \<open>s \<times> 10\<^sup>n\<^sup>-\<^sup>k\<close> (\<open>k\<close> digits) that rounds to \<open>x\<close>; when two decimals of that
  length do, the one closer to \<open>x\<close>, and the even one when they are as close.
  \<open>shortest x n0 k fuel\<close> tries \<open>k\<close>, \<open>k + 1\<close>, ... digits, where \<open>10\<^sup>n\<^sup>0\<^sup>-\<^sup>1 \<le> x < 10\<^sup>n\<^sup>0\<close>, and
  returns \<open>(s, n)\<close>; the candidates with \<open>k\<close> digits are the two multiples of
  \<open>10\<^sup>n\<^sup>0\<^sup>-\<^sup>k\<close> around \<open>x\<close>. Seventeen digits always suffice.
\<close>

fun shortest :: "rat \<Rightarrow> int \<Rightarrow> nat \<Rightarrow> nat \<Rightarrow> int \<times> int" where
  "shortest x n0 k 0 = (\<lfloor>x / pow10 (n0 - int k)\<rfloor>, n0)"
| "shortest x n0 k (Suc fuel) =
     (let u = pow10 (n0 - int k);
          lo = \<lfloor>x / u\<rfloor>;
          okLo = (toDouble (of_int lo * u) = Fin x);
          okHi = (toDouble (of_int (lo + 1) * u) = Fin x);
          dLo = x - of_int lo * u;
          dHi = of_int (lo + 1) * u - x;
          useHi = (okHi \<and> (\<not> okLo \<or> dHi < dLo \<or> (dHi = dLo \<and> odd lo)))
      in if useHi then (if lo + 1 = 10 ^ k then (10 ^ (k - 1), n0 + 1) else (lo + 1, n0))
         else if okLo then (lo, n0)
         else shortest x n0 (Suc k) fuel)"

definition positiveToString :: "rat \<Rightarrow> string" where
  "positiveToString x =
     (let (s, n) = shortest x (ilog10 x + 1) 1 17;
          ds = digitsOf s;
          k = int (length ds)
      in if k \<le> n \<and> n \<le> 21 then ds @ replicate (nat (n - k)) CHR ''0''
         else if 0 < n \<and> n \<le> 21 then take (nat n) ds @ ''.'' @ drop (nat n) ds
         else if - 6 < n \<and> n \<le> 0 then ''0.'' @ replicate (nat (- n)) CHR ''0'' @ ds
         else (if k = 1 then ds else take 1 ds @ ''.'' @ drop 1 ds)
              @ ''e'' @ (if 0 \<le> n - 1 then ''+'' else ''-'') @ digitsOf \<bar>n - 1\<bar>)"

text \<open>The conversion of a template literal \<open>`${x}`\<close>.\<close>

fun numberToString :: "number \<Rightarrow> string" where
  "numberToString NaN = ''NaN''"
| "numberToString PInf = ''Infinity''"
| "numberToString NInf = ''-Infinity''"
| "numberToString (Fin a) =
     (if a = 0 then ''0''
      else if a < 0 then ''-'' @ positiveToString (- a)
      else positiveToString a)"

text \<open>\<open>x.toString(16)\<close> where \<open>x\<close> is a result of \<open>Math.round\<close>, hence an integer, \<open>NaN\<close>
  or an infinity.\<close>

function hexDigitsOf :: "int \<Rightarrow> string" where
  "hexDigitsOf n = (if n < 16 then [''0123456789abcdef'' ! nat n]
                    else hexDigitsOf (n div 16) @ [''0123456789abcdef'' ! nat (n mod 16)])"
  by pat_completeness auto
termination
  by (relation "measure nat") auto

fun toString16 :: "number \<Rightarrow> string" where
  "toString16 NaN = ''NaN''"
| "toString16 PInf = ''Infinity''"
| "toString16 NInf = ''-Infinity''"
| "toString16 (Fin a) = (if a < 0 then ''-'' @ hexDigitsOf \<lfloor>- a\<rfloor> else hexDigitsOf \<lfloor>a\<rfloor>)"

section \<open>Regular expressions of the plugin\<close>

text \<open>
  The two regular expressions are \<open>/^hsl\((\d+),\s*(\d+)%,\s*(\d+)%\)$/\<close> and
  \<open>/^rgb\((\d+),\s*(\d+),\s*(\d+)\)$/\<close>. Each \<open>\d+\<close> is followed by a character that is
  not a digit and each \<open>\s*\<close> by a digit, so the greedy match is the only one and a
  left-to-right scan decides the match. \<open>str.match(re)\<close> is \<open>null\<close> (\<open>None\<close>) or the
  match array: the whole match, then the three captured groups.
\<close>

definition lit :: "string \<Rightarrow> string \<Rightarrow> string option" where
  "lit p str = (if startsWith str p then Some (drop (length p) str) else None)"

definition digits1 :: "string \<Rightarrow> (string \<times> string) option" where
  "digits1 str = (if takeWhile isDigit str = [] then None
                  else Some (takeWhile isDigit str, dropWhile isDigit str))"

definition spaces :: "string \<Rightarrow> string" where
  "spaces str = dropWhile isWhiteSpace str"

definition atEnd :: "string \<Rightarrow> unit option" where
  "atEnd str = (if str = [] then Some () else None)"

definition hslMatch :: "string \<Rightarrow> string list option" where
  "hslMatch str =
     do { t1 \<leftarrow> lit ''hsl('' str;
          (H, t2) \<leftarrow> digits1 t1;
          t3 \<leftarrow> lit '','' t2;
          (S, t4) \<leftarrow> digits1 (spaces t3);
          t5 \<leftarrow> lit ''%,'' t4;
          (L, t6) \<leftarrow> digits1 (spaces t5);
          t7 \<leftarrow> lit ''%)'' t6;
          atEnd t7;
          Some [str, H, S, L] }"

definition rgbMatch :: "string \<Rightarrow> string list option" where
  "rgbMatch str =
     do { t1 \<leftarrow> lit ''rgb('' str;
          (R, t2) \<leftarrow> digits1 t1;
          t3 \<leftarrow> lit '','' t2;
          (G, t4) \<leftarrow> digits1 (spaces t3);
          t5 \<leftarrow> lit '','' t4;
          (B, t6) \<leftarrow> digits1 (spaces t5);
          t7 \<leftarrow> lit '')'' t6;
          atEnd t7;
          Some [str, R, G, B] }"

section \<open>The colour conversions\<close>

record hsl =
  h :: number
  s :: number
  l :: number

record rgb =
  r :: number
  g :: number
  b :: number

text \<open>\<open>console.error\<close> is modelled by the list of the lines it prints: a function that
  may log returns the lines with its result.\<close>

definition parseHslValue :: "string \<Rightarrow> string list \<times> hsl" where
  "parseHslValue str =
     (case hslMatch str of
        None \<Rightarrow> ([''Failed to parse HSL value: '' @ str], \<lparr>h = Fin 0, s = Fin 0, l = Fin 50\<rparr>)
      | Some m \<Rightarrow> ([], \<lparr>h = map Number m ! 1, s = map Number m ! 2, l = map Number m ! 3\<rparr>))"

definition parseRgbValue :: "string \<Rightarrow> string list \<times> rgb" where
  "parseRgbValue str =
     (case rgbMatch str of
        None \<Rightarrow> ([''Failed to parse RGB value: '' @ str], \<lparr>r = Fin 0, g = Fin 0, b = Fin 0\<rparr>)
      | Some m \<Rightarrow> ([], \<lparr>r = map Number m ! 1, g = map Number m ! 2, b = map Number m ! 3\<rparr>))"

definition hexToHsl :: "string \<Rightarrow> hsl" where
  "hexToHsl hex0 =
     (let hex = replaceLeadingHash hex0;
          r = parseInt16 (substring hex 0 2) / Fin 255;
          g = parseInt16 (substring hex 2 4) / Fin 255;
          b = parseInt16 (substring hex 4 6) / Fin 255;
          max = Math_max r g b;
          min = Math_min r g b;
          l = (max + min) / Fin 2;
          (h, s) =
            (if \<not> strictEq max min then
               let d = max - min;
                   s = (if l > Fin (1 / 2) then d / (Fin 2 - max - min) else d / (max + min));
                   h = (if strictEq max r then (g - b) / d + (if g < b then Fin 6 else Fin 0)
                        else if strictEq max g then (b - r) / d + Fin 2
                        else if strictEq max b then (r - g) / d + Fin 4
                        else Fin 0)
               in (h / Fin 6, s)
             else (Fin 0, Fin 0))
      in \<lparr>h = h * Fin 360, s = s * Fin 100, l = l * Fin 100\<rparr>)"

definition hue2rgb :: "number \<Rightarrow> number \<Rightarrow> number \<Rightarrow> number" where
  "hue2rgb p q t0 =
     (let t1 = (if t0 < Fin 0 then t0 + Fin 1 else t0);
          t = (if t1 > Fin 1 then t1 - Fin 1 else t1)
      in if t < Fin 1 / Fin 6 then p + (q - p) * Fin 6 * t
         else if t < Fin 1 / Fin 3 then q
         else if t < Fin 1 / Fin 2 then p + (q - p) * (Fin 2 / Fin 3 - t) * Fin 6
         else p)"

definition hslToRgb :: "number \<Rightarrow> number \<Rightarrow> number \<Rightarrow> rgb" where
  "hslToRgb h0 s0 l0 =
     (let h = h0 / Fin 360;
          s = s0 / Fin 100;
          l = l0 / Fin 100;
          (r, g, b) =
            (if strictEq s (Fin 0) then (l, l, l)
             else let q = (if l < Fin (1 / 2) then l * (Fin 1 + s) else l + s - l * s);
                      p = Fin 2 * l - q
                  in (hue2rgb p q (h + Fin 1 / Fin 3), hue2rgb p q h, hue2rgb p q (h - Fin 1 / Fin 3)))
      in \<lparr>r = Math_round (r * Fin 255), g = Math_round (g * Fin 255), b = Math_round (b * Fin 255)\<rparr>)"

definition rgbToHsl :: "number \<Rightarrow> number \<Rightarrow> number \<Rightarrow> hsl" where
  "rgbToHsl r0 g0 b0 =
     (let r = r0 / Fin 255;
          g = g0 / Fin 255;
          b = b0 / Fin 255;
          max = Math_max r g b;
          min = Math_min r g b;
          l = (max + min) / Fin 2;
          (h, s) =
            (if \<not> strictEq max min then
               let d = max - min;
                   s = (if l > Fin (1 / 2) then d / (Fin 2 - max - min) else d / (max + min));
                   h = (if strictEq max r then (g - b) / d + (if g < b then Fin 6 else Fin 0)
                        else if strictEq max g then (b - r) / d + Fin 2
                        else if strictEq max b then (r - g) / d + Fin 4
                        else Fin 0)
               in (h / Fin 6, s)
             else (Fin 0, Fin 0))
      in \<lparr>h = h * Fin 360, s = s * Fin 100, l = l * Fin 100\<rparr>)"

text \<open>\<open>hslToHex\<close> of the settings tab. \<open>hexChannel\<close> is its local function \<open>f\<close>, with
  the variables \<open>h\<close>, \<open>l\<close> and \<open>a\<close> it reads as parameters.\<close>

definition hexChannel :: "number \<Rightarrow> number \<Rightarrow> number \<Rightarrow> number \<Rightarrow> string" where
  "hexChannel h' l' a n =
     (let k = jsMod (n + h' / Fin 30) (Fin 12);
          color = l' - a * Math_max2 (Math_min (k - Fin 3) (Fin 9 - k) (Fin 1)) (Fin (- 1))
      in padStart2 (toString16 (Math_round (Fin 255 * color))))"

definition hslToHex :: "string \<Rightarrow> string" where
  "hslToHex str =
     (case hslMatch str of
        None \<Rightarrow> ''#000000''
      | Some m \<Rightarrow>
          let h = map Number m ! 1;
              s = map Number m ! 2 / Fin 100;
              l = map Number m ! 3 / Fin 100;
              a = s * Math_min2 l (Fin 1 - l)
          in ''#'' @ hexChannel h l a (Fin 0) @ hexChannel h l a (Fin 8) @ hexChannel h l a (Fin 4))"

text \<open>The text \<open>`hsl(${c.h}, ${c.s}%, ${c.l}%)`\<close> and \<open>`rgb(${c.r}, ${c.g}, ${c.b})`\<close> of a
  colour, as \<open>setFileThemeColor\<close> writes them.\<close>

definition hslText :: "hsl \<Rightarrow> string" where
  "hslText c = ''hsl('' @ numberToString (h c) @ '', '' @ numberToString (s c) @ ''%, ''
                 @ numberToString (l c) @ ''%)''"

definition rgbText :: "rgb \<Rightarrow> string" where
  "rgbText c = ''rgb('' @ numberToString (r c) @ '', '' @ numberToString (g c) @ '', ''
                 @ numberToString (b c) @ '')''"

section \<open>The document\<close>

text \<open>
  The plugin writes to the page through \<open>style\<close> elements appended to \<open>document.head\<close>,
  through the inline style of \<open>document.body\<close> and through the console. The model keeps
  the \<open>style\<close> elements of the head in document order, each with its \<open>id\<close> and its
  \<open>textContent\<close>; elements elsewhere in the page are not modelled, so
  \<open>getElementById\<close> looks in this list. The inline style of the body maps a property
  name to its value and priority.
\<close>

record element =
  el_id :: string
  textContent :: string

record document =
  head :: "element list"
  bodyStyle :: "string \<rightharpoonup> string \<times> string"
  console :: "string list"

text \<open>\<open>document.getElementById(i)\<close>: the first element with that id, if any.\<close>

definition getElementById :: "document \<Rightarrow> string \<Rightarrow> element option" where
  "getElementById d i = find (\<lambda>e. el_id e = i) (head d)"

text \<open>\<open>e.remove()\<close> for the element \<open>getElementById(i)\<close> returned: the first element
  with that id leaves the head.\<close>

fun removeFirst :: "string \<Rightarrow> element list \<Rightarrow> element list" where
  "removeFirst i [] = []"
| "removeFirst i (e # es) = (if el_id e = i then es else e # removeFirst i es)"

text \<open>
  What the plugin reads from the page: the style sheets of the document, and the computed
  style of the root element. A style sheet gives its rules, or throws when they are read
  (a sheet of another origin). A style rule gives the property names of its declaration
  block by index, a custom property with its leading \<open>--\<close>; the other kinds of rule
  (media, import, ...) are not instances of \<open>CSSStyleRule\<close>. \<open>rootStyle\<close> is
  \<open>getComputedStyle(document.documentElement).getPropertyValue\<close>.
\<close>

datatype cssRule = CSSStyleRule "string list" | OtherRule

datatype styleSheet = Rules "cssRule list" | Inaccessible

record page =
  styleSheets :: "styleSheet list"
  rootStyle :: "string \<Rightarrow> string"

section \<open>The plugin\<close>

subsection \<open>Tag colours\<close>

text \<open>\<open>settings.tagColors\<close> is an object from tag to colour; it is modelled by the list
  of its entries in the order \<open>for ... in\<close> enumerates them.\<close>

type_synonym tagColors = "(string \<times> string) list"

text \<open>The text built by the loop of \<open>applyTagColors\<close>, from the empty string.\<close>

definition tagCss :: "tagColors \<Rightarrow> string" where
  \<open>tagCss tagColors =
     foldl (\<lambda>css (tag, color).
              css @ ''.tag[href="#'' @ tag @ ''"] { color: '' @ color @ '' !important; }'')
       [] tagColors\<close>

definition applyTagColors :: "tagColors \<Rightarrow> document \<Rightarrow> document" where
  "applyTagColors tagColors d =
     d\<lparr>head := head d @ [\<lparr>el_id = ''themed-tags-plugin-style'', textContent = tagCss tagColors\<rparr>]\<rparr>"

definition removeTagColors :: "document \<Rightarrow> document" where
  "removeTagColors d =
     (case getElementById d ''themed-tags-plugin-style'' of
        None \<Rightarrow> d
      | Some style \<Rightarrow> d\<lparr>head := removeFirst ''themed-tags-plugin-style'' (head d)\<rparr>)"

subsection \<open>Accent variables\<close>

text \<open>\<open>accentVariables.add(name)\<close> on a \<open>Set\<close>, kept in insertion order as
  \<open>Array.from\<close> returns it.\<close>

definition setAdd :: "string list \<Rightarrow> string \<Rightarrow> string list" where
  "setAdd xs x = (if x \<in> set xs then xs else xs @ [x])"

definition addAccentNames :: "string list \<Rightarrow> string list \<Rightarrow> string list" where
  "addAccentNames acc names =
     foldl (\<lambda>acc name. if str_includes name ''accent'' then setAdd acc name else acc) acc names"

fun addRule :: "string list \<Rightarrow> cssRule \<Rightarrow> string list" where
  "addRule acc (CSSStyleRule names) = addAccentNames acc names"
| "addRule acc OtherRule = acc"

text \<open>The \<open>try\<close> block of a sheet: reading the rules of an inaccessible sheet throws
  before anything is added, and the \<open>catch\<close> ignores it.\<close>

fun addSheet :: "string list \<Rightarrow> styleSheet \<Rightarrow> string list" where
  "addSheet acc (Rules rules) = foldl addRule acc rules"
| "addSheet acc Inaccessible = acc"

definition getAccentVariables :: "styleSheet list \<Rightarrow> string list" where
  "getAccentVariables sheets = foldl addSheet [] sheets"

definition getCssVariableValue :: "page \<Rightarrow> string \<Rightarrow> string" where
  "getCssVariableValue pg variable = trim (rootStyle pg (''--'' @ variable))"

subsection \<open>Theme colour\<close>

text \<open>
  The body of the \<open>forEach\<close> of \<open>setFileThemeColor\<close>, inside its guard:
  \<open>newValueOf\<close> returns the lines logged by the parsers and the new value, or \<open>None\<close>
  when \<open>skip\<close> is set.
\<close>

definition newValueOf :: "hsl \<Rightarrow> string \<Rightarrow> string \<Rightarrow> string list \<times> string option" where
  "newValueOf hslColor variable originalValue =
     (if endsWith variable ''-h'' \<or> endsWith variable ''-s'' then
        ([], Some (if endsWith variable ''-h'' then numberToString (h hslColor)
                   else if endsWith variable ''-s'' then numberToString (s hslColor) @ ''%''
                   else originalValue))
      else if endsWith variable ''-rgb'' then
        (let (logged, c) = parseRgbValue originalValue;
             hslParts = rgbToHsl (r c) (g c) (b c);
             rgbColor = hslToRgb (h hslColor) (s hslColor) (l hslParts)
         in (logged, Some (rgbText rgbColor)))
      else if startsWith originalValue ''hsl('' then
        (let (logged, hslParts) = parseHslValue originalValue
         in (logged, Some (hslText \<lparr>h = h hslColor, s = s hslColor, l = l hslParts\<rparr>)))
      else ([], None))"

text \<open>One round of the \<open>forEach\<close>: the state is the text \<open>css\<close> and the console.\<close>

definition themeStep :: "page \<Rightarrow> hsl \<Rightarrow> string \<times> string list \<Rightarrow> string \<Rightarrow> string \<times> string list" where
  "themeStep pg hslColor st variable =
     (let originalValue = getCssVariableValue pg variable
      in if \<not> str_includes originalValue ''var('' \<and> originalValue \<noteq> [] then
           (case newValueOf hslColor variable originalValue of
              (logged, None) \<Rightarrow> (fst st, snd st @ logged)
            | (logged, Some newValue) \<Rightarrow>
                (fst st @ ''--'' @ variable @ '': '' @ newValue @ '' !important;'', snd st @ logged))
         else st)"

definition themeLoop :: "page \<Rightarrow> hsl \<Rightarrow> string list \<Rightarrow> string list \<Rightarrow> string \<times> string list" where
  "themeLoop pg hslColor accentVariables logs =
     foldl (themeStep pg hslColor) ('':root {'', logs) accentVariables"

definition setFileThemeColor :: "page \<Rightarrow> string \<Rightarrow> document \<Rightarrow> document" where
  "setFileThemeColor pg color d =
     (let hslColor = hexToHsl color;
          accentVariables = getAccentVariables (styleSheets pg);
          (css, logs) = themeLoop pg hslColor accentVariables (console d)
      in d\<lparr>head := head d @ [\<lparr>el_id = ''themed-tags-file-theme-color'', textContent = css @ '' }''\<rparr>],
            bodyStyle := (bodyStyle d)
              (''--accent-h'' \<mapsto> (numberToString (h hslColor), ''important''),
               ''--accent-s'' \<mapsto> (numberToString (s hslColor) @ ''%'', ''important'')),
            console := logs\<rparr>)"

definition removeFileThemeColor :: "document \<Rightarrow> document" where
  "removeFileThemeColor d =
     (let d' = (case getElementById d ''themed-tags-file-theme-color'' of
                  None \<Rightarrow> d
                | Some style \<Rightarrow> d\<lparr>head := removeFirst ''themed-tags-file-theme-color'' (head d)\<rparr>)
      in d'\<lparr>bodyStyle := (bodyStyle d')(''--accent-h'' := None, ''--accent-s'' := None)\<rparr>)"

text \<open>The other variant of the plugin in the repository sets one fixed variable. Its
  template literal spans lines: \<open>nl\<close> and \<open>tab\<close> are the line feed and the tab in it.\<close>

definition nl :: string where
  "nl = [CHR 0x0A]"

definition tab :: string where
  "tab = [CHR 0x09]"

definition setFileThemeColor_fixed :: "string \<Rightarrow> document \<Rightarrow> document" where
  "setFileThemeColor_fixed color d =
     d\<lparr>head := head d @
        [\<lparr>el_id = ''themed-tags-file-theme-color'',
          textContent = nl @ tab @ tab @ tab @ ''.markdown-preview-view {''
            @ nl @ tab @ tab @ tab @ tab @ ''--file-theme-color: '' @ color @ '';''
            @ nl @ tab @ tab @ tab @ ''}'' @ nl @ tab @ tab\<rparr>]\<rparr>"

definition removeFileThemeColor_fixed :: "document \<Rightarrow> document" where
  "removeFileThemeColor_fixed d =
     (case getElementById d ''themed-tags-file-theme-color'' of
        None \<Rightarrow> d
      | Some style \<Rightarrow> d\<lparr>head := removeFirst ''themed-tags-file-theme-color'' (head d)\<rparr>)"

section \<open>Notions used to state the claims\<close>

text \<open>A run of one or more digits: what \<open>\d+\<close> captures.\<close>

definition digitRun :: "string \<Rightarrow> bool" where
  "digitRun ds \<longleftrightarrow> ds \<noteq> [] \<and> list_all isDigit ds"

text \<open>The property names declared in the style rules of the sheets that can be read.\<close>

definition declaredNames :: "styleSheet list \<Rightarrow> string list" where
  "declaredNames sheets =
     concat (map (\<lambda>sheet. case sheet of
                     Rules rules \<Rightarrow>
                       concat (map (\<lambda>rule. case rule of CSSStyleRule names \<Rightarrow> names
                                            | OtherRule \<Rightarrow> []) rules)
                   | Inaccessible \<Rightarrow> []) sheets)"

text \<open>The style blocks of a document that carry the identifier of the theme colour, and
  those that carry the identifier of the tag colours.\<close>

definition themeBlocks :: "document \<Rightarrow> element list" where
  "themeBlocks d = filter (\<lambda>e. el_id e = ''themed-tags-file-theme-color'') (head d)"

definition tagBlocks :: "document \<Rightarrow> element list" where
  "tagBlocks d = filter (\<lambda>e. el_id e = ''themed-tags-plugin-style'') (head d)"

text \<open>An empty document, and two pages. The first page is what a theme gives: a sheet
  that cannot be read, and a sheet whose rule declares \<open>--accent-h\<close> twice and \<open>color\<close>;
  the root element has the value 210 for \<open>--accent-h\<close>. The second page has a rule that
  declares properties named \<open>accent-h\<close>, \<open>accent-v\<close> and \<open>accent-e\<close>; at the root,
  \<open>--accent-h\<close> is 210, \<open>--accent-v\<close> refers to another variable and \<open>--accent-e\<close> is
  empty.\<close>

definition emptyDocument :: document where
  "emptyDocument = \<lparr>head = [], bodyStyle = Map.empty, console = []\<rparr>"

definition themePage :: page where
  "themePage =
     \<lparr>styleSheets =
        [Inaccessible, Rules [CSSStyleRule [''--accent-h'', ''color'', ''--accent-h''], OtherRule]],
      rootStyle = (\<lambda>name. if name = ''--accent-h'' then ''210'' else [])\<rparr>"

definition indirectPage :: page where
  "indirectPage =
     \<lparr>styleSheets = [Rules [CSSStyleRule [''accent-h'', ''accent-v'', ''accent-e'']]],
      rootStyle = (\<lambda>name. if name = ''--accent-h'' then ''210''
                          else if name = ''--accent-v'' then '' var(--accent-h)'' else [])\<rparr>"

section \<open>The number model on known values\<close>

text \<open>Three values every JavaScript engine prints: \<open>0.1 + 0.2\<close> is
  \<open>0.30000000000000004\<close>, \<open>1 / 3\<close> is \<open>0.3333333333333333\<close>, and \<open>2\<^sup>5\<^sup>3 + 1\<close> is not a
  double: its digits convert to \<open>9007199254740992\<close>.\<close>

lemma number_model_sum: "numberToString (toDouble (1 / 10) + toDouble (2 / 10)) = ''0.30000000000000004''"
  by code_simp

lemma number_model_third: "numberToString (Fin 1 / Fin 3) = ''0.3333333333333333''"
  by code_simp

lemma number_model_integer: "numberToString (Number ''9007199254740993'') = ''9007199254740992''"
  by code_simp

section \<open>Colour conversions: the claims\<close>

lemma hexToHsl_red: "hexToHsl ''#ff0000'' = \<lparr>h = Fin 0, s = Fin 100, l = Fin 50\<rparr>"
  by code_simp

lemma hexToHsl_green: "hexToHsl ''#00ff00'' = \<lparr>h = Fin 120, s = Fin 100, l = Fin 50\<rparr>"
  by code_simp

lemma hexToHsl_blue: "hexToHsl ''#0000ff'' = \<lparr>h = Fin 240, s = Fin 100, l = Fin 50\<rparr>"
  by code_simp

text \<open>
  C6. \<open>hexToHsl\<close> maps the three primaries to their exact HSL values: red to
  \<open>{h: 0, s: 100, l: 50}\<close>, green to \<open>{h: 120, s: 100, l: 50}\<close> and blue to
  \<open>{h: 240, s: 100, l: 50}\<close>. The values are the doubles the code computes: the hue of
  green is \<open>2 / 6\<close> rounded, times 360, rounded, which is 120 exactly.
\<close>

theorem hexToHsl_primaries:
  "hexToHsl ''#ff0000'' = \<lparr>h = Fin 0, s = Fin 100, l = Fin 50\<rparr> \<and>
   hexToHsl ''#00ff00'' = \<lparr>h = Fin 120, s = Fin 100, l = Fin 50\<rparr> \<and>
   hexToHsl ''#0000ff'' = \<lparr>h = Fin 240, s = Fin 100, l = Fin 50\<rparr>"
  using hexToHsl_red hexToHsl_green hexToHsl_blue by simp

lemma hexToHsl_not_hex: "hexToHsl ''zzzzzz'' = \<lparr>h = Fin 0, s = NaN, l = NaN\<rparr>"
  by code_simp

lemma hexToHsl_short: "hexToHsl ''#fff'' = \<lparr>h = Fin 0, s = NaN, l = NaN\<rparr>"
  by code_simp

lemma hexToHsl_long: "hexToHsl ''#ff0000ff'' = \<lparr>h = Fin 0, s = Fin 100, l = Fin 50\<rparr>"
  by code_simp

lemma parseHslValue_garbage:
  "parseHslValue ''garbage'' =
     ([''Failed to parse HSL value: garbage''], \<lparr>h = Fin 0, s = Fin 0, l = Fin 50\<rparr>)"
  by code_simp

text \<open>
  C3. \<open>hexToHsl\<close> does not check its input. On \<open>zzzzzz\<close>, which has no hexadecimal digit,
  and on the three-digit \<open>#fff\<close> it returns an HSL value whose saturation and lightness are
  \<open>NaN\<close>, where the claim promises a fallback value and no \<open>NaN\<close>; on the eight-digit
  \<open>#ff0000ff\<close> it reads the first six digits and returns the HSL value of red. Nothing is
  logged. The parsers beside it do what the claim says: \<open>parseHslValue\<close> returns its
  fallback and logs the failure.
\<close>

theorem hexToHsl_malformed_input:
  "hexToHsl ''zzzzzz'' = \<lparr>h = Fin 0, s = NaN, l = NaN\<rparr> \<and>
   hexToHsl ''#fff'' = \<lparr>h = Fin 0, s = NaN, l = NaN\<rparr> \<and>
   hexToHsl ''#ff0000ff'' = \<lparr>h = Fin 0, s = Fin 100, l = Fin 50\<rparr> \<and>
   parseHslValue ''garbage'' =
     ([''Failed to parse HSL value: garbage''], \<lparr>h = Fin 0, s = Fin 0, l = Fin 50\<rparr>)"
  using hexToHsl_not_hex hexToHsl_short hexToHsl_long parseHslValue_garbage by simp

lemma hslToRgb_200_50_40:
  "hslToRgb (Fin 200) (Fin 50) (Fin 40) = \<lparr>r = Fin 51, g = Fin 51, b = Fin 153\<rparr>"
  by code_simp

lemma rgbToHsl_51_51_153:
  "rgbToHsl (Fin 51) (Fin 51) (Fin 153) =
     \<lparr>h = Fin 240, s = Fin (7036874417766399 / 140737488355328), l = Fin 40\<rparr>"
  by code_simp

lemma hslToRgb_red: "hslToRgb (Fin 0) (Fin 100) (Fin 50) = \<lparr>r = Fin 510, g = Fin 0, b = Fin 0\<rparr>"
  by code_simp

lemma hslToHex_200_50_40: "hslToHex ''hsl(200, 50%, 40%)'' = ''#337799''"
  by code_simp

text \<open>
  C5. The round trip through \<open>hslToRgb\<close> and \<open>rgbToHsl\<close> does not reproduce the colour.
  \<open>hue2rgb\<close> tests \<open>t < 1/3\<close> and \<open>t < 1/2\<close> where the conversion it implements tests
  \<open>t < 1/2\<close> and \<open>t < 2/3\<close>. For \<open>h = 200\<close>, \<open>s = 50\<close>, \<open>l = 40\<close> the green channel comes
  out as 51 instead of 119 (\<open>hslToHex\<close> gives \<open>#337799\<close>, that is 51, 119, 153, for the
  same colour), and \<open>rgbToHsl\<close> of the result has hue 240, forty degrees off. For pure
  red, \<open>h = 0\<close>, \<open>s = 100\<close>, \<open>l = 50\<close>, the red channel is 510, outside 0..255.
\<close>

theorem hslToRgb_round_trip_fails:
  "hslToRgb (Fin 200) (Fin 50) (Fin 40) = \<lparr>r = Fin 51, g = Fin 51, b = Fin 153\<rparr> \<and>
   rgbToHsl (Fin 51) (Fin 51) (Fin 153) =
     \<lparr>h = Fin 240, s = Fin (7036874417766399 / 140737488355328), l = Fin 40\<rparr> \<and>
   hslToRgb (Fin 0) (Fin 100) (Fin 50) = \<lparr>r = Fin 510, g = Fin 0, b = Fin 0\<rparr> \<and>
   hslToHex ''hsl(200, 50%, 40%)'' = ''#337799''"
  using hslToRgb_200_50_40 rgbToHsl_51_51_153 hslToRgb_red hslToHex_200_50_40 by simp

subsection \<open>The pattern of \<open>parseHslValue\<close>\<close>

lemma startsWith_iff: "startsWith str p \<longleftrightarrow> (\<exists>rest. str = p @ rest)"
  by (induction str p rule: startsWith.induct) auto

lemma lit_Some_iff: "lit p str = Some t \<longleftrightarrow> str = p @ t"
  by (auto simp: lit_def startsWith_iff)

lemma digit_not_space: "isDigit c \<Longrightarrow> \<not> isWhiteSpace c"
  by (auto simp: isDigit_def isWhiteSpace_def)

lemma digits1_Some_iff:
  "digits1 str = Some (ds, t) \<longleftrightarrow>
     ds \<noteq> [] \<and> list_all isDigit ds \<and> str = ds @ t \<and> (t = [] \<or> \<not> isDigit (hd t))"
proof
  assume "digits1 str = Some (ds, t)"
  then have ds: "ds = takeWhile isDigit str" and t: "t = dropWhile isDigit str" and ne: "ds \<noteq> []"
    by (auto simp: digits1_def split: if_splits)
  have "list_all isDigit ds"
    unfolding ds list_all_iff by (auto dest: set_takeWhileD)
  moreover have "str = ds @ t"
    unfolding ds t by simp
  moreover have "t = [] \<or> \<not> isDigit (hd t)"
    unfolding t using hd_dropWhile [of isDigit str] by auto
  ultimately show "ds \<noteq> [] \<and> list_all isDigit ds \<and> str = ds @ t \<and> (t = [] \<or> \<not> isDigit (hd t))"
    using ne by simp
next
  assume a: "ds \<noteq> [] \<and> list_all isDigit ds \<and> str = ds @ t \<and> (t = [] \<or> \<not> isDigit (hd t))"
  then have all: "\<forall>x\<in>set ds. isDigit x"
    by (simp add: list_all_iff)
  have tw: "takeWhile isDigit t = []"
    using a by (cases t) auto
  have "takeWhile isDigit str = ds"
    using a all tw by (simp add: takeWhile_append2)
  moreover have "dropWhile isDigit str = t"
    using a all tw by (simp add: dropWhile_append2 takeWhile_eq_Nil_iff) (cases t; auto)
  ultimately show "digits1 str = Some (ds, t)"
    using a by (simp add: digits1_def)
qed

lemma spaces_eq_iff:
  "spaces str = t \<longleftrightarrow>
     (\<exists>w. list_all isWhiteSpace w \<and> str = w @ t \<and> (t = [] \<or> \<not> isWhiteSpace (hd t)))"
proof
  assume t: "spaces str = t"
  have "list_all isWhiteSpace (takeWhile isWhiteSpace str)"
    unfolding list_all_iff by (auto dest: set_takeWhileD)
  moreover have "str = takeWhile isWhiteSpace str @ t"
    using t takeWhile_dropWhile_id [of isWhiteSpace str] by (simp add: spaces_def)
  moreover have "t = [] \<or> \<not> isWhiteSpace (hd t)"
    using t hd_dropWhile [of isWhiteSpace str] by (auto simp: spaces_def)
  ultimately show "\<exists>w. list_all isWhiteSpace w \<and> str = w @ t \<and> (t = [] \<or> \<not> isWhiteSpace (hd t))"
    by blast
next
  assume "\<exists>w. list_all isWhiteSpace w \<and> str = w @ t \<and> (t = [] \<or> \<not> isWhiteSpace (hd t))"
  then obtain w where w: "list_all isWhiteSpace w" "str = w @ t" "t = [] \<or> \<not> isWhiteSpace (hd t)"
    by blast
  have "dropWhile isWhiteSpace t = t"
    using w(3) by (cases t) auto
  then show "spaces str = t"
    using w by (simp add: spaces_def dropWhile_append2 list_all_iff)
qed

lemma digits1_run:
  assumes "digitRun ds" "\<not> isDigit c"
  shows "digits1 (ds @ c # t) = Some (ds, c # t)"
  using assms by (simp add: digits1_Some_iff digitRun_def)

lemma spaces_run:
  assumes "list_all isWhiteSpace w" "digitRun ds"
  shows "spaces (w @ ds @ t) = ds @ t"
proof -
  obtain c cs where ds: "ds = c # cs" "isDigit c"
    using assms(2) by (cases ds) (auto simp: digitRun_def)
  then have "\<not> isWhiteSpace (hd (ds @ t))"
    by (simp add: digit_not_space)
  then show ?thesis
    using assms(1) by (auto simp: spaces_eq_iff)
qed

lemma not_digit_punct: "\<not> isDigit CHR '',''" "\<not> isDigit CHR ''%''"
  by (simp_all add: isDigit_def)

text \<open>Every string of the form \<open>hsl(H,\<close> \<open>S%,\<close> \<open>L%)\<close>, with white space allowed after the
  commas, is matched and its three digit runs are captured.\<close>

lemma hslMatch_form:
  assumes "digitRun H" "digitRun S" "digitRun L"
    and "list_all isWhiteSpace w1" "list_all isWhiteSpace w2"
  shows "hslMatch (''hsl('' @ H @ '','' @ w1 @ S @ ''%,'' @ w2 @ L @ ''%)'') =
           Some [''hsl('' @ H @ '','' @ w1 @ S @ ''%,'' @ w2 @ L @ ''%)'', H, S, L]"
proof -
  have 1: "lit ''hsl('' (''hsl('' @ H @ '','' @ w1 @ S @ ''%,'' @ w2 @ L @ ''%)'')
             = Some (H @ '','' @ w1 @ S @ ''%,'' @ w2 @ L @ ''%)'')"
    by (simp add: lit_Some_iff)
  have 2: "digits1 (H @ '','' @ w1 @ S @ ''%,'' @ w2 @ L @ ''%)'')
             = Some (H, '','' @ w1 @ S @ ''%,'' @ w2 @ L @ ''%)'')"
    using digits1_run [OF assms(1) not_digit_punct(1)] by simp
  have 3: "lit '','' ('','' @ w1 @ S @ ''%,'' @ w2 @ L @ ''%)'')
             = Some (w1 @ S @ ''%,'' @ w2 @ L @ ''%)'')"
    by (simp add: lit_Some_iff)
  have 4: "spaces (w1 @ S @ ''%,'' @ w2 @ L @ ''%)'') = S @ ''%,'' @ w2 @ L @ ''%)''"
    using spaces_run [OF assms(4) assms(2)] by simp
  have 5: "digits1 (S @ ''%,'' @ w2 @ L @ ''%)'') = Some (S, ''%,'' @ w2 @ L @ ''%)'')"
    using digits1_run [OF assms(2) not_digit_punct(2)] by simp
  have 6: "lit ''%,'' (''%,'' @ w2 @ L @ ''%)'') = Some (w2 @ L @ ''%)'')"
    by (simp add: lit_Some_iff)
  have 7: "spaces (w2 @ L @ ''%)'') = L @ ''%)''"
    using spaces_run [OF assms(5) assms(3)] by simp
  have 8: "digits1 (L @ ''%)'') = Some (L, ''%)'')"
    using digits1_run [OF assms(3) not_digit_punct(2)] by simp
  have 9: "lit ''%)'' ''%)'' = Some []"
    by (simp add: lit_Some_iff)
  show ?thesis
    unfolding hslMatch_def
    by (simp only: 1 2 3 4 5 6 7 8 9 bind.bind_lunit prod.case) (simp add: atEnd_def)
qed

text \<open>Conversely, a matched string has that form.\<close>

lemma hslMatch_Some_form:
  assumes "hslMatch str = Some m"
  shows "\<exists>H S L w1 w2. digitRun H \<and> digitRun S \<and> digitRun L
           \<and> list_all isWhiteSpace w1 \<and> list_all isWhiteSpace w2
           \<and> str = ''hsl('' @ H @ '','' @ w1 @ S @ ''%,'' @ w2 @ L @ ''%)''"
proof -
  from assms obtain t1 H t2 t3 S t4 t5 L t6 t7 where
    a: "lit ''hsl('' str = Some t1" "digits1 t1 = Some (H, t2)" "lit '','' t2 = Some t3"
       "digits1 (spaces t3) = Some (S, t4)" "lit ''%,'' t4 = Some t5"
       "digits1 (spaces t5) = Some (L, t6)" "lit ''%)'' t6 = Some t7" "atEnd t7 = Some ()"
    unfolding hslMatch_def by (auto simp: bind_eq_Some_conv)
  from a(4) obtain w1 where w1: "list_all isWhiteSpace w1" "t3 = w1 @ S @ t4"
    using spaces_eq_iff [of t3 "spaces t3"] by (auto simp: digits1_Some_iff)
  from a(6) obtain w2 where w2: "list_all isWhiteSpace w2" "t5 = w2 @ L @ t6"
    using spaces_eq_iff [of t5 "spaces t5"] by (auto simp: digits1_Some_iff)
  have "t7 = []"
    using a(8) by (simp add: atEnd_def split: if_splits)
  then have "str = ''hsl('' @ H @ '','' @ w1 @ S @ ''%,'' @ w2 @ L @ ''%)''"
    using a(1,2,3,5,7) w1(2) w2(2) by (simp add: lit_Some_iff digits1_Some_iff)
  moreover have "digitRun H" "digitRun S" "digitRun L"
    using a(2,4,6) by (simp_all add: digits1_Some_iff digitRun_def)
  ultimately show ?thesis
    using w1(1) w2(1) by blast
qed

lemma Number_digitRun: "digitRun ds \<Longrightarrow> Number ds = toDouble (of_int (decimalValue ds))"
  by (simp add: Number_def digitRun_def)

text \<open>
  C9. \<open>parseHslValue\<close> matches exactly the strings \<open>hsl(H,\<close> \<open>S%,\<close> \<open>L%)\<close> where \<open>H\<close>, \<open>S\<close>
  and \<open>L\<close> are runs of digits and any white space, also none, may follow each comma. For
  such a string it returns the three components, each the decimal value of its run as a
  double, and logs nothing. For every other string it returns the fallback
  \<open>{h: 0, s: 0, l: 50}\<close> and logs one line, the failure with the string. The result type
  has no error: the function never throws.
\<close>

theorem parseHslValue_spec:
  "(digitRun H \<and> digitRun S \<and> digitRun L \<and> list_all isWhiteSpace w1 \<and> list_all isWhiteSpace w2 \<longrightarrow>
      parseHslValue (''hsl('' @ H @ '','' @ w1 @ S @ ''%,'' @ w2 @ L @ ''%)'') =
        ([], \<lparr>h = toDouble (of_int (decimalValue H)), s = toDouble (of_int (decimalValue S)),
              l = toDouble (of_int (decimalValue L))\<rparr>))
   \<and> ((\<forall>H S L w1 w2. digitRun H \<and> digitRun S \<and> digitRun L
          \<and> list_all isWhiteSpace w1 \<and> list_all isWhiteSpace w2 \<longrightarrow>
          str \<noteq> ''hsl('' @ H @ '','' @ w1 @ S @ ''%,'' @ w2 @ L @ ''%)'') \<longrightarrow>
      parseHslValue str =
        ([''Failed to parse HSL value: '' @ str], \<lparr>h = Fin 0, s = Fin 0, l = Fin 50\<rparr>))"
proof (intro conjI impI)
  assume a: "digitRun H \<and> digitRun S \<and> digitRun L \<and> list_all isWhiteSpace w1 \<and> list_all isWhiteSpace w2"
  then have m: "hslMatch (''hsl('' @ H @ '','' @ w1 @ S @ ''%,'' @ w2 @ L @ ''%)'') =
                  Some [''hsl('' @ H @ '','' @ w1 @ S @ ''%,'' @ w2 @ L @ ''%)'', H, S, L]"
    by (intro hslMatch_form) simp_all
  show "parseHslValue (''hsl('' @ H @ '','' @ w1 @ S @ ''%,'' @ w2 @ L @ ''%)'') =
        ([], \<lparr>h = toDouble (of_int (decimalValue H)), s = toDouble (of_int (decimalValue S)),
              l = toDouble (of_int (decimalValue L))\<rparr>)"
    unfolding parseHslValue_def
    by (simp only: m option.case) (simp add: Number_digitRun a)
next
  assume "\<forall>H S L w1 w2. digitRun H \<and> digitRun S \<and> digitRun L
          \<and> list_all isWhiteSpace w1 \<and> list_all isWhiteSpace w2 \<longrightarrow>
          str \<noteq> ''hsl('' @ H @ '','' @ w1 @ S @ ''%,'' @ w2 @ L @ ''%)''"
  then have "\<nexists>m. hslMatch str = Some m"
    using hslMatch_Some_form [of str] by blast
  then have "hslMatch str = None"
    by (cases "hslMatch str") simp_all
  then show "parseHslValue str =
        ([''Failed to parse HSL value: '' @ str], \<lparr>h = Fin 0, s = Fin 0, l = Fin 50\<rparr>)"
    by (simp add: parseHslValue_def)
qed

lemma toDouble_200: "toDouble (of_int (decimalValue ''200'')) = Fin 200"
  by code_simp

lemma toDouble_50: "toDouble (of_int (decimalValue ''50'')) = Fin 50"
  by code_simp

lemma toDouble_40: "toDouble (of_int (decimalValue ''40'')) = Fin 40"
  by code_simp

theorem parseHslValue_spec_witness:
  "parseHslValue ''hsl(200, 50%, 40%)'' = ([], \<lparr>h = Fin 200, s = Fin 50, l = Fin 40\<rparr>) \<and>
   parseHslValue ''garbage'' =
     ([''Failed to parse HSL value: garbage''], \<lparr>h = Fin 0, s = Fin 0, l = Fin 50\<rparr>)"
proof -
  have run: "digitRun ''200'' \<and> digitRun ''50'' \<and> digitRun ''40''
             \<and> list_all isWhiteSpace '' '' \<and> list_all isWhiteSpace '' ''"
    by (simp add: digitRun_def isDigit_def isWhiteSpace_def)
  have no: "\<forall>H S L w1 w2. digitRun H \<and> digitRun S \<and> digitRun L
              \<and> list_all isWhiteSpace w1 \<and> list_all isWhiteSpace w2 \<longrightarrow>
              ''garbage'' \<noteq> ''hsl('' @ H @ '','' @ w1 @ S @ ''%,'' @ w2 @ L @ ''%)''"
    by simp
  from parseHslValue_spec [of "''200''" "''50''" "''40''" "'' ''" "'' ''" "''garbage''"] run no
  show ?thesis
    by (simp add: toDouble_200 toDouble_50 toDouble_40)
qed

subsection \<open>From hex to HSL and back\<close>
















section \<open>Style blocks: the claims\<close>

subsection \<open>Tag colours\<close>



lemma tagCss_Nil: "tagCss [] = []"
  by (simp add: tagCss_def)


lemma tagCss_example:
  \<open>tagCss [(''project'', ''#ff0000''), (''done'', ''#00ff00'')] =
    ''.tag[href="#project"] { color: #ff0000 !important; }.tag[href="#done"] { color: #00ff00 !important; }''\<close>
  by (simp add: tagCss_def)

lemma applyTagColors_head:
  "head (applyTagColors m d) =
     head d @ [\<lparr>el_id = ''themed-tags-plugin-style'', textContent = tagCss m\<rparr>]"
  by (simp add: applyTagColors_def)


lemma removeTagColors_example:
  "head (removeTagColors (applyTagColors []
     (applyTagColors [(''project'', ''#ff0000''), (''done'', ''#00ff00'')] emptyDocument)))
     = [\<lparr>el_id = ''themed-tags-plugin-style'', textContent = []\<rparr>]"
  by (simp add: removeTagColors_def applyTagColors_def getElementById_def emptyDocument_def
      tagCss_Nil)

text \<open>
  C2. \<open>applyTagColors\<close> appends a new block each time and never removes or rewrites the
  one it appended before: after two calls the head holds both blocks. After
  \<open>applyTagColors({"project": "#ff0000", "done": "#00ff00"})\<close> and \<open>applyTagColors({})\<close>
  on an empty document, the first block still holds its two rules and an empty block
  follows it; \<open>removeTagColors\<close>, which removes one element by that identifier, then
  leaves a block behind.
\<close>

theorem applyTagColors_twice_appends:
  \<open>head (applyTagColors m2 (applyTagColors m1 d)) =
     head d @ [\<lparr>el_id = ''themed-tags-plugin-style'', textContent = tagCss m1\<rparr>,
               \<lparr>el_id = ''themed-tags-plugin-style'', textContent = tagCss m2\<rparr>]
   \<and> length (tagBlocks (applyTagColors m2 (applyTagColors m1 d))) = length (tagBlocks d) + 2
   \<and> head (applyTagColors []
        (applyTagColors [(''project'', ''#ff0000''), (''done'', ''#00ff00'')] emptyDocument)) =
     [\<lparr>el_id = ''themed-tags-plugin-style'',
       textContent = ''.tag[href="#project"] { color: #ff0000 !important; }.tag[href="#done"] { color: #00ff00 !important; }''\<rparr>,
      \<lparr>el_id = ''themed-tags-plugin-style'', textContent = []\<rparr>]
   \<and> head (removeTagColors (applyTagColors []
        (applyTagColors [(''project'', ''#ff0000''), (''done'', ''#00ff00'')] emptyDocument))) =
     [\<lparr>el_id = ''themed-tags-plugin-style'', textContent = []\<rparr>]\<close>
  using tagCss_example removeTagColors_example
  by (simp add: applyTagColors_head emptyDocument_def tagCss_Nil tagBlocks_def)

subsection \<open>Theme colour\<close>

lemma setFileThemeColor_head:
  "head (setFileThemeColor pg color d) =
     head d @ [\<lparr>el_id = ''themed-tags-file-theme-color'',
                textContent = fst (themeLoop pg (hexToHsl color)
                  (getAccentVariables (styleSheets pg)) (console d)) @ '' }''\<rparr>]"
  by (simp add: setFileThemeColor_def Let_def split: prod.splits)

lemma themeBlocks_twice:
  "length (themeBlocks (setFileThemeColor pg2 c2 (setFileThemeColor pg1 c1 d))) =
     length (themeBlocks d) + 2"
  by (simp add: themeBlocks_def setFileThemeColor_head)

lemma themeBlocks_fixed_twice:
  "length (themeBlocks (setFileThemeColor_fixed c2 (setFileThemeColor_fixed c1 d))) =
     length (themeBlocks d) + 2"
  by (simp add: themeBlocks_def setFileThemeColor_fixed_def)

lemma setFileThemeColor_twice_example:
  "map textContent (head (setFileThemeColor indirectPage ''#00ff00''
     (setFileThemeColor indirectPage ''#ff0000'' emptyDocument))) =
   ['':root {--accent-h: 0 !important; }'', '':root {--accent-h: 120 !important; }'']"
  by code_simp

lemma removeFileThemeColor_example:
  "map textContent (head (removeFileThemeColor (setFileThemeColor indirectPage ''#00ff00''
     (setFileThemeColor indirectPage ''#ff0000'' emptyDocument)))) =
   ['':root {--accent-h: 120 !important; }'']"
  by code_simp

lemma setFileThemeColor_fixed_twice_example:
  "map textContent (head (setFileThemeColor_fixed ''#00ff00''
     (setFileThemeColor_fixed ''#ff0000'' emptyDocument))) =
   [nl @ tab @ tab @ tab @ ''.markdown-preview-view {''
      @ nl @ tab @ tab @ tab @ tab @ ''--file-theme-color: #ff0000;''
      @ nl @ tab @ tab @ tab @ ''}'' @ nl @ tab @ tab,
    nl @ tab @ tab @ tab @ ''.markdown-preview-view {''
      @ nl @ tab @ tab @ tab @ tab @ ''--file-theme-color: #00ff00;''
      @ nl @ tab @ tab @ tab @ ''}'' @ nl @ tab @ tab]"
  by (simp add: setFileThemeColor_fixed_def emptyDocument_def)

text \<open>
  C1. \<open>setFileThemeColor\<close> appends a new block each time and never removes the one it
  appended before, in both variants of the plugin: two calls leave two more blocks with
  the identifier than there were. On an empty document, the calls with \<open>#ff0000\<close> and then
  \<open>#00ff00\<close> leave two blocks, the first for the first colour and the second for the
  second; \<open>removeFileThemeColor\<close>, which removes one element by that identifier, then
  leaves a block behind.
\<close>

theorem setFileThemeColor_twice_appends:
  "length (themeBlocks (setFileThemeColor pg2 c2 (setFileThemeColor pg1 c1 d))) =
     length (themeBlocks d) + 2
   \<and> length (themeBlocks (setFileThemeColor_fixed c2 (setFileThemeColor_fixed c1 d))) =
     length (themeBlocks d) + 2
   \<and> map textContent (head (setFileThemeColor indirectPage ''#00ff00''
        (setFileThemeColor indirectPage ''#ff0000'' emptyDocument))) =
      ['':root {--accent-h: 0 !important; }'', '':root {--accent-h: 120 !important; }'']
   \<and> map textContent (head (removeFileThemeColor (setFileThemeColor indirectPage ''#00ff00''
        (setFileThemeColor indirectPage ''#ff0000'' emptyDocument)))) =
      ['':root {--accent-h: 120 !important; }'']
   \<and> map textContent (head (setFileThemeColor_fixed ''#00ff00''
        (setFileThemeColor_fixed ''#ff0000'' emptyDocument))) =
      [nl @ tab @ tab @ tab @ ''.markdown-preview-view {''
         @ nl @ tab @ tab @ tab @ tab @ ''--file-theme-color: #ff0000;''
         @ nl @ tab @ tab @ tab @ ''}'' @ nl @ tab @ tab,
       nl @ tab @ tab @ tab @ ''.markdown-preview-view {''
         @ nl @ tab @ tab @ tab @ tab @ ''--file-theme-color: #00ff00;''
         @ nl @ tab @ tab @ tab @ ''}'' @ nl @ tab @ tab]"
  by (intro conjI themeBlocks_twice themeBlocks_fixed_twice setFileThemeColor_twice_example
      removeFileThemeColor_example setFileThemeColor_fixed_twice_example)

subsection \<open>Accent variables\<close>

lemma set_setAdd: "set (setAdd xs x) = insert x (set xs)"
  by (auto simp: setAdd_def)

lemma distinct_setAdd: "distinct xs \<Longrightarrow> distinct (setAdd xs x)"
  by (auto simp: setAdd_def)

lemma set_addAccentNames:
  "set (addAccentNames acc names) = set acc \<union> {n \<in> set names. str_includes n ''accent''}"
  unfolding addAccentNames_def
  by (induction names arbitrary: acc) (auto simp: set_setAdd)

lemma distinct_addAccentNames: "distinct acc \<Longrightarrow> distinct (addAccentNames acc names)"
  unfolding addAccentNames_def
  by (induction names arbitrary: acc) (auto simp: distinct_setAdd)

lemma set_foldl_addRule:
  "set (foldl addRule acc rules) =
     set acc \<union> {n \<in> set (concat (map (\<lambda>rule. case rule of CSSStyleRule names \<Rightarrow> names
                                                  | OtherRule \<Rightarrow> []) rules)).
                  str_includes n ''accent''}"
proof (induction rules arbitrary: acc)
  case Nil
  then show ?case by simp
next
  case (Cons rule rules)
  then show ?case by (cases rule) (auto simp: set_addAccentNames)
qed

lemma distinct_foldl_addRule: "distinct acc \<Longrightarrow> distinct (foldl addRule acc rules)"
proof (induction rules arbitrary: acc)
  case Nil
  then show ?case by simp
next
  case (Cons rule rules)
  then show ?case by (cases rule) (auto simp: distinct_addAccentNames)
qed

lemma set_foldl_addSheet:
  "set (foldl addSheet acc sheets) =
     set acc \<union> {n \<in> set (declaredNames sheets). str_includes n ''accent''}"
proof (induction sheets arbitrary: acc)
  case Nil
  then show ?case by (simp add: declaredNames_def)
next
  case (Cons sheet sheets)
  then show ?case by (cases sheet) (auto simp: declaredNames_def set_foldl_addRule)
qed

lemma distinct_foldl_addSheet: "distinct acc \<Longrightarrow> distinct (foldl addSheet acc sheets)"
proof (induction sheets arbitrary: acc)
  case Nil
  then show ?case by simp
next
  case (Cons sheet sheets)
  then show ?case by (cases sheet) (auto simp: distinct_foldl_addRule)
qed

lemma getAccentVariables_themePage: "getAccentVariables (styleSheets themePage) = [''--accent-h'']"
  by code_simp

lemma getCssVariableValue_themePage: "getCssVariableValue themePage ''--accent-h'' = []"
  by code_simp

lemma setFileThemeColor_themePage:
  "map textContent (head (setFileThemeColor themePage ''#00ff00'' emptyDocument)) = ['':root { }'']"
  by code_simp

text \<open>
  C7. \<open>getAccentVariables\<close> returns, without repetition, the property names declared in
  the style rules of the readable sheets that contain \<open>accent\<close>; a sheet that cannot be
  read adds nothing and stops nothing. But the names are returned as declared: the
  leading \<open>--\<close> of a custom property is kept, and a property that is not a custom
  property is returned too. On the theme page the result is \<open>--accent-h\<close>. Its caller
  puts \<open>--\<close> in front of the name again, so it reads the property \<open>----accent-h\<close>, which
  has no value, and \<open>setFileThemeColor\<close> overrides no variable in its block.
\<close>

theorem getAccentVariables_names:
  "set (getAccentVariables sheets) = {n \<in> set (declaredNames sheets). str_includes n ''accent''}
   \<and> distinct (getAccentVariables sheets)
   \<and> getAccentVariables (styleSheets themePage) = [''--accent-h'']
   \<and> getCssVariableValue themePage ''--accent-h'' = []
   \<and> map textContent (head (setFileThemeColor themePage ''#00ff00'' emptyDocument)) = ['':root { }'']"
  using getAccentVariables_themePage getCssVariableValue_themePage setFileThemeColor_themePage
  by (simp add: getAccentVariables_def set_foldl_addSheet distinct_foldl_addSheet)

subsection \<open>Variables that are left alone\<close>









end
